theory Spec2Isabelle
  imports Main "HOL-Library.Word"
begin

unbundle bit_operations_syntax

section \<open>Data model\<close>

text \<open>
  A Python \<open>bytes\<close> object is a list of 8-bit words. A Python \<open>str\<close> is a list of
  Unicode code points (natural numbers); \<open>str_lit\<close> writes an ASCII literal of the source
  as such a list.
\<close>

type_synonym byte = "8 word"
type_synonym pystr = "nat list"

definition str_lit :: "string \<Rightarrow> pystr" where
  "str_lit s = map of_char s"

definition bytes_lit :: "string \<Rightarrow> byte list" where
  "bytes_lit s = map of_char s"

text \<open>The exceptions that the modelled code can raise. Each is an \<open>Exception\<close>.\<close>

datatype exn =
    TypeError
  | KeyError
  | AttributeError
  | UnicodeEncodeError
  | UnicodeDecodeError
  | JSONDecodeError
  | ValueError
  | RecursionError

text \<open>
  What \<open>json.loads\<close> returns: \<open>None\<close>, \<open>bool\<close>, \<open>int\<close>, \<open>float\<close> (the 64 bits of
  the IEEE 754 double), \<open>str\<close>, \<open>list\<close> and \<open>dict\<close> (an association list read with
  \<open>map_of\<close>). \<open>jsonify\<close> of a dict is written with the same type.
\<close>

datatype json =
    JNull
  | JBool bool
  | JInt int
  | JFloat "64 word"
  | JStr pystr
  | JArr "json list"
  | JObj "(pystr \<times> json) list"

section \<open>Standard-library operations used by the listener\<close>

subsection \<open>\<open>str.encode('utf-8')\<close> and \<open>bytes.decode('utf-8')\<close>\<close>

definition utf8_encode_cp :: "nat \<Rightarrow> byte list option" where
  "utf8_encode_cp c =
     (if c < 0x80 then Some [of_nat c]
      else if c < 0x800 then Some [of_nat (0xC0 + c div 64), of_nat (0x80 + c mod 64)]
      else if c < 0x10000 then
        (if 0xD800 \<le> c \<and> c < 0xE000 then None
         else Some [of_nat (0xE0 + c div 4096), of_nat (0x80 + c div 64 mod 64),
                    of_nat (0x80 + c mod 64)])
      else if c < 0x110000 then
        Some [of_nat (0xF0 + c div 262144), of_nat (0x80 + c div 4096 mod 64),
              of_nat (0x80 + c div 64 mod 64), of_nat (0x80 + c mod 64)]
      else None)"

text \<open>\<open>None\<close> stands for \<open>UnicodeEncodeError\<close> (a lone surrogate).\<close>

fun utf8_encode :: "pystr \<Rightarrow> byte list option" where
  "utf8_encode [] = Some []"
| "utf8_encode (c # cs) =
     (case utf8_encode_cp c of
        None \<Rightarrow> None
      | Some bs \<Rightarrow> (case utf8_encode cs of None \<Rightarrow> None | Some r \<Rightarrow> Some (bs @ r)))"

definition is_cont :: "byte \<Rightarrow> bool" where
  "is_cont b = (0x80 \<le> unat b \<and> unat b < 0xC0)"

text \<open>
  The strict decoder: \<open>None\<close> stands for \<open>UnicodeDecodeError\<close> (a stray or missing
  continuation byte, an overlong form, a surrogate, a value above U+10FFFF).
\<close>

fun utf8_decode :: "byte list \<Rightarrow> pystr option" where
  "utf8_decode [] = Some []"
| "utf8_decode (b0 # bs) =
     (let n0 = unat b0 in
      if n0 < 0x80 then map_option ((#) n0) (utf8_decode bs)
      else if 0xC2 \<le> n0 \<and> n0 \<le> 0xDF then
        (case bs of
           b1 # r \<Rightarrow>
             if is_cont b1
             then map_option ((#) ((n0 - 0xC0) * 64 + (unat b1 - 0x80))) (utf8_decode r)
             else None
         | _ \<Rightarrow> None)
      else if 0xE0 \<le> n0 \<and> n0 \<le> 0xEF then
        (case bs of
           b1 # b2 # r \<Rightarrow>
             (let c = (n0 - 0xE0) * 4096 + (unat b1 - 0x80) * 64 + (unat b2 - 0x80) in
              if is_cont b1 \<and> is_cont b2 \<and> 0x800 \<le> c \<and> \<not> (0xD800 \<le> c \<and> c < 0xE000)
              then map_option ((#) c) (utf8_decode r)
              else None)
         | _ \<Rightarrow> None)
      else if 0xF0 \<le> n0 \<and> n0 \<le> 0xF4 then
        (case bs of
           b1 # b2 # b3 # r \<Rightarrow>
             (let c = (n0 - 0xF0) * 262144 + (unat b1 - 0x80) * 4096
                      + (unat b2 - 0x80) * 64 + (unat b3 - 0x80) in
              if is_cont b1 \<and> is_cont b2 \<and> is_cont b3 \<and> 0x10000 \<le> c \<and> c < 0x110000
              then map_option ((#) c) (utf8_decode r)
              else None)
         | _ \<Rightarrow> None)
      else None)"

subsection \<open>\<open>HMAC.hexdigest\<close> and \<open>hmac.compare_digest\<close>\<close>

definition hex_digit :: "nat \<Rightarrow> nat" where
  "hex_digit n = (if n < 10 then 48 + n else 87 + n)"

definition hex_byte :: "byte \<Rightarrow> pystr" where
  "hex_byte b = [hex_digit (unat b div 16), hex_digit (unat b mod 16)]"

definition hexdigest :: "byte list \<Rightarrow> pystr" where
  "hexdigest bs = concat (map hex_byte bs)"

definition is_ascii :: "pystr \<Rightarrow> bool" where
  "is_ascii s = list_all (\<lambda>c. c < 128) s"

text \<open>
  On two \<open>str\<close> arguments \<open>hmac.compare_digest\<close> raises \<open>TypeError\<close> unless both are
  ASCII-only, and otherwise returns whether they are equal.
\<close>

definition compare_digest :: "pystr \<Rightarrow> pystr \<Rightarrow> exn + bool" where
  "compare_digest a b =
     (if is_ascii a \<and> is_ascii b then Inr (a = b) else Inl TypeError)"

section \<open>The signature verifier\<close>

text \<open>
  \<open>verify_webhook_signature\<close> of \<open>github_webhook_listener.py\<close>. The header value is
  \<open>None\<close> when the request has no \<open>X-Hub-Signature-256\<close> header. The digest function of
  \<open>hmac.new(key, msg, hashlib.sha256)\<close> belongs to the standard library, not to the
  repository: it is the parameter \<open>mac\<close>, from key and message to the digest bytes.
\<close>

definition verify_webhook_signature ::
  "(byte list \<Rightarrow> byte list \<Rightarrow> byte list) \<Rightarrow> byte list \<Rightarrow> pystr option \<Rightarrow> pystr \<Rightarrow> exn + bool"
where
  "verify_webhook_signature mac payload signature secret =
     (case signature of
        None \<Rightarrow> Inr False
      | Some sig \<Rightarrow>
          if sig = [] \<or> secret = [] then Inr False
          else if take 7 sig \<noteq> str_lit ''sha256='' then Inr False
          else
            (let expected_signature = drop 7 sig in
             case utf8_encode secret of
               None \<Rightarrow> Inl UnicodeEncodeError
             | Some key \<Rightarrow>
                 (let calculated_signature = hexdigest (mac key payload)
                  in compare_digest expected_signature calculated_signature)))"

section \<open>Python operations on decoded JSON\<close>

text \<open>Sequencing of statements that may raise: the first exception ends the block.\<close>

definition and_then :: "exn + 'a \<Rightarrow> ('a \<Rightarrow> exn + 'b) \<Rightarrow> exn + 'b" where
  "and_then r f = (case r of Inl e \<Rightarrow> Inl e | Inr x \<Rightarrow> f x)"

text \<open>
  \<open>v[k]\<close> with a \<open>str\<close> key: a dict raises \<open>KeyError\<close> on a missing key; a list or a
  \<open>str\<close> wants integer indices and the other values are not subscriptable, all
  \<open>TypeError\<close>.
\<close>

fun subscript :: "json \<Rightarrow> pystr \<Rightarrow> exn + json" where
  "subscript (JObj kvs) k = (case map_of kvs k of None \<Rightarrow> Inl KeyError | Some v \<Rightarrow> Inr v)"
| "subscript _ k = Inl TypeError"

text \<open>\<open>v.get(k)\<close>: only a dict has the method; a missing key gives \<open>None\<close>.\<close>

fun py_get :: "json \<Rightarrow> pystr \<Rightarrow> exn + json" where
  "py_get (JObj kvs) k = (case map_of kvs k of None \<Rightarrow> Inr JNull | Some v \<Rightarrow> Inr v)"
| "py_get _ k = Inl AttributeError"

text \<open>Truth value of an object in \<open>if v:\<close>.\<close>

fun truthy :: "json \<Rightarrow> bool" where
  "truthy JNull = False"
| "truthy (JBool b) = b"
| "truthy (JInt i) = (i \<noteq> 0)"
| "truthy (JFloat w) = (take_bit 63 w \<noteq> 0)"
| "truthy (JStr s) = (s \<noteq> [])"
| "truthy (JArr xs) = (xs \<noteq> [])"
| "truthy (JObj kvs) = (kvs \<noteq> [])"

section \<open>The pull-request handlers\<close>

text \<open>
  Each handler reads keys of the payload and logs them. Logging and string formatting
  do not raise; what is modelled is the order of the key reads, any of which may raise.
\<close>

definition handle_pull_request_opened :: "json \<Rightarrow> exn + unit" where
  "handle_pull_request_opened payload =
     and_then (subscript payload (str_lit ''pull_request'')) (\<lambda>pr.
     and_then (subscript payload (str_lit ''repository'')) (\<lambda>repo.
     and_then (subscript payload (str_lit ''sender'')) (\<lambda>sender.
     and_then (subscript pr (str_lit ''number'')) (\<lambda>_.
     and_then (subscript pr (str_lit ''title'')) (\<lambda>_.
     and_then (subscript repo (str_lit ''full_name'')) (\<lambda>_.
     and_then (subscript sender (str_lit ''login'')) (\<lambda>_.
     and_then (subscript pr (str_lit ''html_url'')) (\<lambda>_.
     Inr ()))))))))"

definition handle_pull_request_closed :: "json \<Rightarrow> exn + unit" where
  "handle_pull_request_closed payload =
     and_then (subscript payload (str_lit ''pull_request'')) (\<lambda>pr.
     and_then (subscript payload (str_lit ''repository'')) (\<lambda>repo.
     and_then (subscript payload (str_lit ''sender'')) (\<lambda>sender.
     and_then (subscript pr (str_lit ''number'')) (\<lambda>_.
     and_then (subscript pr (str_lit ''title'')) (\<lambda>_.
     and_then (subscript repo (str_lit ''full_name'')) (\<lambda>_.
     and_then (subscript sender (str_lit ''login'')) (\<lambda>_.
     and_then (subscript pr (str_lit ''merged'')) (\<lambda>_.
     Inr ()))))))))"

definition handle_pull_request_merged :: "json \<Rightarrow> exn + unit" where
  "handle_pull_request_merged payload =
     and_then (subscript payload (str_lit ''pull_request'')) (\<lambda>pr.
     and_then (subscript payload (str_lit ''repository'')) (\<lambda>repo.
     and_then (subscript payload (str_lit ''sender'')) (\<lambda>sender.
     and_then (subscript pr (str_lit ''number'')) (\<lambda>_.
     and_then (subscript pr (str_lit ''title'')) (\<lambda>_.
     and_then (subscript repo (str_lit ''full_name'')) (\<lambda>_.
     and_then (subscript sender (str_lit ''login'')) (\<lambda>_.
     and_then (subscript pr (str_lit ''merge_commit_sha'')) (\<lambda>_.
     Inr ()))))))))"

definition handle_pull_request_review_requested :: "json \<Rightarrow> exn + unit" where
  "handle_pull_request_review_requested payload =
     and_then (subscript payload (str_lit ''pull_request'')) (\<lambda>pr.
     and_then (subscript payload (str_lit ''repository'')) (\<lambda>repo.
     and_then (py_get payload (str_lit ''requested_reviewer'')) (\<lambda>requested_reviewer.
     and_then (py_get payload (str_lit ''requested_team'')) (\<lambda>requested_team.
     and_then (subscript pr (str_lit ''number'')) (\<lambda>_.
     and_then (subscript pr (str_lit ''title'')) (\<lambda>_.
     and_then (subscript repo (str_lit ''full_name'')) (\<lambda>_.
     and_then (if truthy requested_reviewer
               then subscript requested_reviewer (str_lit ''login'') else Inr JNull) (\<lambda>_.
     and_then (if truthy requested_team
               then subscript requested_team (str_lit ''name'') else Inr JNull) (\<lambda>_.
     Inr ())))))))))"

definition handle_pull_request_review_submitted :: "json \<Rightarrow> exn + unit" where
  "handle_pull_request_review_submitted payload =
     and_then (subscript payload (str_lit ''pull_request'')) (\<lambda>pr.
     and_then (subscript payload (str_lit ''repository'')) (\<lambda>repo.
     and_then (subscript payload (str_lit ''review'')) (\<lambda>review.
     and_then (subscript payload (str_lit ''sender'')) (\<lambda>sender.
     and_then (subscript pr (str_lit ''number'')) (\<lambda>_.
     and_then (subscript pr (str_lit ''title'')) (\<lambda>_.
     and_then (subscript repo (str_lit ''full_name'')) (\<lambda>_.
     and_then (subscript sender (str_lit ''login'')) (\<lambda>_.
     and_then (subscript review (str_lit ''state'')) (\<lambda>_.
     and_then (py_get review (str_lit ''body'')) (\<lambda>body.
     and_then (if truthy body then subscript review (str_lit ''body'') else Inr JNull) (\<lambda>_.
     Inr ())))))))))))"

definition handle_pull_request_synchronize :: "json \<Rightarrow> exn + unit" where
  "handle_pull_request_synchronize payload =
     and_then (subscript payload (str_lit ''pull_request'')) (\<lambda>pr.
     and_then (subscript payload (str_lit ''repository'')) (\<lambda>repo.
     and_then (subscript payload (str_lit ''sender'')) (\<lambda>sender.
     and_then (subscript pr (str_lit ''number'')) (\<lambda>_.
     and_then (subscript pr (str_lit ''title'')) (\<lambda>_.
     and_then (subscript repo (str_lit ''full_name'')) (\<lambda>_.
     and_then (subscript sender (str_lit ''login'')) (\<lambda>_.
     and_then (subscript pr (str_lit ''head'')) (\<lambda>head.
     and_then (subscript head (str_lit ''sha'')) (\<lambda>_.
     Inr ())))))))))"

section \<open>The webhook endpoint\<close>

text \<open>
  The part of a request that \<open>webhook\<close> reads: the raw body and the two headers, each
  \<open>None\<close> when the request does not carry it.
\<close>

record request =
  get_data :: "byte list"
  x_hub_signature_256 :: "pystr option"
  x_github_event :: "pystr option"

record response =
  status :: nat
  body :: json

datatype handler =
    Opened
  | Closed
  | Merged
  | ReviewRequested
  | ReviewSubmitted
  | Synchronize

text \<open>
  What a run of \<open>webhook\<close> does besides answering: \<open>Parse\<close> when it reaches the
  statement that decodes and parses the body, \<open>Invoke h d\<close> when it calls handler \<open>h\<close>
  with argument \<open>d\<close>.
\<close>

datatype event = Parse | Invoke handler json

fun run_handler :: "handler \<Rightarrow> json \<Rightarrow> exn + unit" where
  "run_handler Opened = handle_pull_request_opened"
| "run_handler Closed = handle_pull_request_closed"
| "run_handler Merged = handle_pull_request_merged"
| "run_handler ReviewRequested = handle_pull_request_review_requested"
| "run_handler ReviewSubmitted = handle_pull_request_review_submitted"
| "run_handler Synchronize = handle_pull_request_synchronize"

definition jsonify :: "string \<Rightarrow> string \<Rightarrow> json" where
  "jsonify k v = JObj [(str_lit k, JStr (str_lit v))]"

definition received :: response where
  "received = \<lparr>status = 200, body = jsonify ''message'' ''Webhook received successfully''\<rparr>"

text \<open>
  The \<open>try\<close> block of \<open>webhook\<close>: the response it returns or the exception that leaves
  it, with the events so far. \<open>secret\<close> is \<open>WEBHOOK_SECRET\<close> of \<open>config.py\<close>;
  \<open>loads\<close> is \<open>json.loads\<close> on a \<open>str\<close>, a parameter like \<open>mac\<close>.
\<close>

definition call :: "handler \<Rightarrow> json \<Rightarrow> (exn + response) \<times> event list" where
  "call h data =
     (case run_handler h data of
        Inl e \<Rightarrow> (Inl e, [Parse, Invoke h data])
      | Inr _ \<Rightarrow> (Inr received, [Parse, Invoke h data]))"

definition webhook_try ::
  "(byte list \<Rightarrow> byte list \<Rightarrow> byte list) \<Rightarrow> (pystr \<Rightarrow> exn + json) \<Rightarrow> pystr \<Rightarrow> request
     \<Rightarrow> (exn + response) \<times> event list"
where
  "webhook_try mac loads secret req =
     (let payload = get_data req; signature = x_hub_signature_256 req in
      case verify_webhook_signature mac payload signature secret of
        Inl e \<Rightarrow> (Inl e, [])
      | Inr False \<Rightarrow> (Inr \<lparr>status = 401, body = jsonify ''error'' ''Invalid signature''\<rparr>, [])
      | Inr True \<Rightarrow>
          (case utf8_decode payload of
             None \<Rightarrow> (Inl UnicodeDecodeError, [Parse])
           | Some text \<Rightarrow>
               (case loads text of
                  Inl e \<Rightarrow> (Inl e, [Parse])
                | Inr data \<Rightarrow>
                    (let event_type = x_github_event req in
                     if event_type = Some (str_lit ''pull_request'') then
                       (case py_get data (str_lit ''action'') of
                          Inl e \<Rightarrow> (Inl e, [Parse])
                        | Inr action \<Rightarrow>
                            if action = JStr (str_lit ''opened'') then call Opened data
                            else if action = JStr (str_lit ''closed'') then call Closed data
                            else if action = JStr (str_lit ''merged'') then call Merged data
                            else if action = JStr (str_lit ''review_requested'')
                              then call ReviewRequested data
                            else if action = JStr (str_lit ''submitted'')
                              then call ReviewSubmitted data
                            else if action = JStr (str_lit ''synchronize'')
                              then call Synchronize data
                            else (Inr received, [Parse]))
                     else if event_type = Some (str_lit ''ping'') then
                       (Inr \<lparr>status = 200, body = jsonify ''message'' ''Pong''\<rparr>, [Parse])
                     else (Inr received, [Parse])))))"

text \<open>
  The \<open>except\<close> clauses: \<open>json.JSONDecodeError\<close> answers 400, every other exception 500.
\<close>

definition webhook ::
  "(byte list \<Rightarrow> byte list \<Rightarrow> byte list) \<Rightarrow> (pystr \<Rightarrow> exn + json) \<Rightarrow> pystr \<Rightarrow> request
     \<Rightarrow> response \<times> event list"
where
  "webhook mac loads secret req =
     (case webhook_try mac loads secret req of
        (Inr resp, evs) \<Rightarrow> (resp, evs)
      | (Inl JSONDecodeError, evs) \<Rightarrow>
          (\<lparr>status = 400, body = jsonify ''error'' ''Invalid JSON''\<rparr>, evs)
      | (Inl _, evs) \<Rightarrow>
          (\<lparr>status = 500, body = jsonify ''error'' ''Internal server error''\<rparr>, evs))"

definition invoked :: "event list \<Rightarrow> (handler \<times> json) list" where
  "invoked evs = concat (map (\<lambda>e. case e of Invoke h d \<Rightarrow> [(h, d)] | Parse \<Rightarrow> []) evs)"

section \<open>The route table of the specification\<close>

text \<open>
  The action-to-handler table as the specification lists it, to be compared with the
  \<open>if\<close>/\<open>elif\<close> chain of \<open>webhook\<close>.
\<close>

definition route_table :: "pystr \<rightharpoonup> handler" where
  "route_table =
     map_of [(str_lit ''opened'', Opened),
             (str_lit ''closed'', Closed),
             (str_lit ''merged'', Merged),
             (str_lit ''review_requested'', ReviewRequested),
             (str_lit ''submitted'', ReviewSubmitted),
             (str_lit ''synchronize'', Synchronize)]"

section \<open>Concrete deliveries\<close>

text \<open>
  A delivery signed the way the platform signs it: the header is \<open>sha256=\<close> followed by
  the hexadecimal digest of the body under the UTF-8 encoding of the secret.
\<close>

definition signed_request ::
  "(byte list \<Rightarrow> byte list \<Rightarrow> byte list) \<Rightarrow> pystr \<Rightarrow> byte list \<Rightarrow> pystr option \<Rightarrow> request"
where
  "signed_request mac secret payload ev =
     \<lparr>get_data = payload,
      x_hub_signature_256 =
        map_option (\<lambda>key. str_lit ''sha256='' @ hexdigest (mac key payload)) (utf8_encode secret),
      x_github_event = ev\<rparr>"

text \<open>The default of \<open>WEBHOOK_SECRET\<close> in \<open>config.py\<close>.\<close>

definition default_secret :: pystr where
  "default_secret = str_lit ''your_webhook_secret_here''"

text \<open>
  Stand-ins for the two library parameters, to run the model on concrete deliveries.
  \<open>test_loads\<close> agrees with \<open>json.loads\<close> on the documents below and on \<open>not json\<close>.
\<close>

definition test_mac :: "byte list \<Rightarrow> byte list \<Rightarrow> byte list" where
  "test_mac key msg = [of_nat (length key), of_nat (length msg)]"

definition body_bare :: string where
  \<open>body_bare = ''{"action":"opened"}''\<close>

definition payload_bare :: json where
  "payload_bare = JObj [(str_lit ''action'', JStr (str_lit ''opened''))]"

definition body_full :: string where
  \<open>body_full = ''{"action":"opened","pull_request":{"number":1,"title":"t","html_url":"u"},"repository":{"full_name":"r"},"sender":{"login":"s"}}''\<close>

definition payload_full :: json where
  "payload_full =
     JObj [(str_lit ''action'', JStr (str_lit ''opened'')),
           (str_lit ''pull_request'',
              JObj [(str_lit ''number'', JInt 1), (str_lit ''title'', JStr (str_lit ''t'')),
                    (str_lit ''html_url'', JStr (str_lit ''u''))]),
           (str_lit ''repository'', JObj [(str_lit ''full_name'', JStr (str_lit ''r''))]),
           (str_lit ''sender'', JObj [(str_lit ''login'', JStr (str_lit ''s''))])]"

definition body_closed :: string where
  \<open>body_closed = ''{"action":"closed","pull_request":{"merged":true}}''\<close>

definition payload_closed :: json where
  "payload_closed =
     JObj [(str_lit ''action'', JStr (str_lit ''closed'')),
           (str_lit ''pull_request'', JObj [(str_lit ''merged'', JBool True)])]"

definition body_edited :: string where
  \<open>body_edited = ''{"action":"edited"}''\<close>

definition payload_edited :: json where
  "payload_edited = JObj [(str_lit ''action'', JStr (str_lit ''edited''))]"

definition body_empty :: string where
  "body_empty = ''{}''"

definition body_array :: string where
  "body_array = ''[]''"

definition test_loads :: "pystr \<Rightarrow> exn + json" where
  "test_loads text =
     (if text = str_lit body_bare then Inr payload_bare
      else if text = str_lit body_full then Inr payload_full
      else if text = str_lit body_closed then Inr payload_closed
      else if text = str_lit body_edited then Inr payload_edited
      else if text = str_lit body_empty then Inr (JObj [])
      else if text = str_lit body_array then Inr (JArr [])
      else Inl JSONDecodeError)"

definition delivery :: "string \<Rightarrow> pystr option \<Rightarrow> request" where
  "delivery doc ev = signed_request test_mac default_secret (bytes_lit doc) ev"

section \<open>The verifier: properties\<close>

lemma length_prefix: "length (str_lit ''sha256='') = 7"
  by (simp add: str_lit_def)

lemma prefix_nonempty: "str_lit ''sha256='' \<noteq> []"
  by (simp add: str_lit_def)

lemma hex_digit_lt: "n < 16 \<Longrightarrow> hex_digit n < 128"
  by (simp add: hex_digit_def)

text \<open>A hexadecimal digest is ASCII, so only the header can make the comparison raise.\<close>

lemma is_ascii_hexdigest: "is_ascii (hexdigest bs)"
proof (induction bs)
  case Nil
  then show ?case by (simp add: is_ascii_def hexdigest_def)
next
  case (Cons b bs)
  have "unat b < 256" using unsigned_less [of b, where ?'a = nat] by simp
  then have "unat b div 16 < 16" and "unat b mod 16 < 16"
    by simp_all
  then have "hex_digit (unat b div 16) < 128" "hex_digit (unat b mod 16) < 128"
    by (simp_all add: hex_digit_lt)
  with Cons show ?case by (simp add: is_ascii_def hexdigest_def hex_byte_def)
qed

lemma verify_signed:
  assumes "secret \<noteq> []" and "utf8_encode secret = Some key"
  shows "verify_webhook_signature mac payload
           (Some (str_lit ''sha256='' @ hexdigest (mac key payload))) secret = Inr True"
  using assms
  by (simp add: verify_webhook_signature_def compare_digest_def is_ascii_hexdigest
      length_prefix prefix_nonempty)

lemma default_secret_nonempty: "default_secret \<noteq> []"
  by (simp add: default_secret_def str_lit_def)

lemma default_secret_key:
  "utf8_encode default_secret = Some (bytes_lit ''your_webhook_secret_here'')"
  by (simp add: default_secret_def bytes_lit_def str_lit_def utf8_encode_cp_def)

lemma verify_signed_request:
  assumes "secret \<noteq> []" and "utf8_encode secret = Some key"
  shows "verify_webhook_signature mac (get_data (signed_request mac secret payload ev))
           (x_hub_signature_256 (signed_request mac secret payload ev)) secret = Inr True"
  using assms by (simp add: signed_request_def verify_signed)

lemma verify_delivery:
  "verify_webhook_signature test_mac (get_data (delivery doc ev))
     (x_hub_signature_256 (delivery doc ev)) default_secret = Inr True"
  unfolding delivery_def
  by (rule verify_signed_request [OF default_secret_nonempty default_secret_key])

text \<open>The guards of the verifier: each returns false before any digest is computed.\<close>

lemma verify_rejects:
  "verify_webhook_signature mac payload None secret = Inr False"
  "verify_webhook_signature mac payload (Some []) secret = Inr False"
  "verify_webhook_signature mac payload signature [] = Inr False"
  "take 7 sig \<noteq> str_lit ''sha256='' \<Longrightarrow>
     verify_webhook_signature mac payload (Some sig) secret = Inr False"
  by (simp_all add: verify_webhook_signature_def split: option.splits)

text \<open>
  The codec on sample inputs: two-, three- and four-byte forms, a lone surrogate, an
  overlong form, a value above U+10FFFF and a byte that starts no sequence.
\<close>

lemma utf8_codec_examples:
  "utf8_encode [0xE9, 0x20AC, 0x1F600] = Some [0xC3, 0xA9, 0xE2, 0x82, 0xAC, 0xF0, 0x9F, 0x98, 0x80]"
  "utf8_decode [0xC3, 0xA9, 0xE2, 0x82, 0xAC, 0xF0, 0x9F, 0x98, 0x80] = Some [0xE9, 0x20AC, 0x1F600]"
  "utf8_encode [0xDC80] = None"
  "utf8_decode [0xED, 0xB2, 0x80] = None"
  "utf8_decode [0xC0, 0x80] = None"
  "utf8_decode [0xF4, 0x90, 0x80, 0x80] = None"
  "utf8_decode [0xFF] = None"
  by (simp_all add: utf8_encode_cp_def is_cont_def)

text \<open>
  A secret with a lone surrogate (an environment variable that is not valid UTF-8 reads
  as one) has no UTF-8 encoding: the verifier raises.
\<close>

lemma verify_raises_on_surrogate_secret:
  "verify_webhook_signature mac payload (Some (str_lit ''sha256='' @ s)) [0xDC80]
     = Inl UnicodeEncodeError"
  by (simp add: verify_webhook_signature_def length_prefix prefix_nonempty utf8_encode_cp_def)

text \<open>
  C1 (amended). For every payload and every non-empty secret with UTF-8 encoding \<open>key\<close>,
  the verifier returns true on the header \<open>sha256=\<close> followed by the lowercase
  hexadecimal digest of the payload under \<open>key\<close>.
\<close>

theorem verify_accepts_own_signature:
  assumes "secret \<noteq> []" and "utf8_encode secret = Some key"
  shows "verify_webhook_signature mac payload
           (Some (str_lit ''sha256='' @ hexdigest (mac key payload))) secret = Inr True"
  using assms
  by (simp add: verify_webhook_signature_def compare_digest_def is_ascii_hexdigest
      length_prefix prefix_nonempty)

theorem verify_accepts_own_signature_witness:
  "default_secret \<noteq> []
   \<and> utf8_encode default_secret = Some (bytes_lit ''your_webhook_secret_here'')
   \<and> verify_webhook_signature test_mac (bytes_lit body_bare)
         (Some (str_lit ''sha256='' @
            hexdigest (test_mac (bytes_lit ''your_webhook_secret_here'') (bytes_lit body_bare))))
         default_secret = Inr True"
  using verify_accepts_own_signature [OF default_secret_nonempty default_secret_key]
    default_secret_nonempty default_secret_key
  by simp

text \<open>
  C1 as stated fails for the empty secret: its UTF-8 encoding is the empty key, and the
  verifier returns false on the signature made with that key.
\<close>

theorem verify_empty_secret_counterexample:
  "utf8_encode [] = Some []
   \<and> verify_webhook_signature test_mac (bytes_lit body_bare)
         (Some (str_lit ''sha256='' @ hexdigest (test_mac [] (bytes_lit body_bare)))) []
       = Inr False"
  by (simp add: verify_webhook_signature_def)

text \<open>
  C2. The verifier does not always return a boolean: on a header with a non-ASCII
  character after the prefix, \<open>hmac.compare_digest\<close> raises \<open>TypeError\<close>, whatever the
  payload and the digest function.
\<close>

theorem verify_raises_on_non_ascii_header:
  "verify_webhook_signature mac payload (Some (str_lit ''sha256='' @ [233])) default_secret
     = Inl TypeError"
  by (simp add: verify_webhook_signature_def compare_digest_def is_ascii_def
      length_prefix prefix_nonempty default_secret_nonempty default_secret_key)

section \<open>The endpoint: lemmas\<close>

lemma lits_distinct:
  "str_lit ''ping'' \<noteq> str_lit ''pull_request''"
  by (simp add: str_lit_def)

lemma route_table_unfold:
  "route_table s =
     (if s = str_lit ''opened'' then Some Opened
      else if s = str_lit ''closed'' then Some Closed
      else if s = str_lit ''merged'' then Some Merged
      else if s = str_lit ''review_requested'' then Some ReviewRequested
      else if s = str_lit ''submitted'' then Some ReviewSubmitted
      else if s = str_lit ''synchronize'' then Some Synchronize
      else None)"
  by (simp add: route_table_def)

lemma route_table_keys:
  "route_table (str_lit ''opened'') = Some Opened"
  "route_table (str_lit ''closed'') = Some Closed"
  "route_table (str_lit ''merged'') = Some Merged"
  by (simp_all add: route_table_def str_lit_def)

lemma route_table_case_sensitive: "route_table (str_lit ''Opened'') = None"
  by (simp add: route_table_def str_lit_def)

text \<open>No handler raises \<open>json.JSONDecodeError\<close>: what a handler raises is answered 500.\<close>

lemma subscript_not_json: "subscript v k \<noteq> Inl JSONDecodeError"
  by (cases v) (simp_all split: option.splits)

lemma py_get_not_json: "py_get v k \<noteq> Inl JSONDecodeError"
  by (cases v) (simp_all split: option.splits)

lemma and_then_not_json:
  "r \<noteq> Inl JSONDecodeError \<Longrightarrow> (\<And>x. f x \<noteq> Inl JSONDecodeError)
     \<Longrightarrow> and_then r f \<noteq> Inl JSONDecodeError"
  by (auto simp: and_then_def split: sum.splits)

lemmas handler_defs =
  handle_pull_request_opened_def handle_pull_request_closed_def
  handle_pull_request_merged_def handle_pull_request_review_requested_def
  handle_pull_request_review_submitted_def handle_pull_request_synchronize_def

lemma run_handler_not_json: "run_handler h d \<noteq> Inl JSONDecodeError"
  by (cases h; simp add: handler_defs;
      intro and_then_not_json; simp add: subscript_not_json py_get_not_json)

lemma call_events: "snd (call h d) = [Parse, Invoke h d]"
  by (simp add: call_def split: sum.splits)

lemma invoked_simps:
  "invoked [] = []" "invoked [Parse] = []" "invoked [Parse, Invoke h d] = [(h, d)]"
  by (simp_all add: invoked_def)

lemma webhook_events:
  "snd (webhook mac loads secret req) = snd (webhook_try mac loads secret req)"
  by (simp add: webhook_def split: prod.splits sum.splits exn.splits)

lemma webhook_of_call:
  "webhook_try mac loads secret req = call h d \<Longrightarrow>
     webhook mac loads secret req =
       (case run_handler h d of
          Inr _ \<Rightarrow> received
        | Inl _ \<Rightarrow> \<lparr>status = 500, body = jsonify ''error'' ''Internal server error''\<rparr>,
        [Parse, Invoke h d])"
  using run_handler_not_json [of h d]
  by (simp add: webhook_def call_def split: sum.splits exn.splits)

lemma webhook_of_response:
  "webhook_try mac loads secret req = (Inr r, evs) \<Longrightarrow> webhook mac loads secret req = (r, evs)"
  by (simp add: webhook_def)

text \<open>
  The \<open>if\<close>/\<open>elif\<close> chain on the action is a lookup in the route table; an action
  that is not a string matches no entry.
\<close>

lemma webhook_try_pull_request:
  assumes "verify_webhook_signature mac (get_data req) (x_hub_signature_256 req) secret = Inr True"
    and "utf8_decode (get_data req) = Some doc"
    and "loads doc = Inr d"
    and "x_github_event req = Some (str_lit ''pull_request'')"
    and "py_get d (str_lit ''action'') = Inr a"
  shows "webhook_try mac loads secret req =
           (case a of
              JStr s \<Rightarrow>
                (case route_table s of
                   Some h \<Rightarrow> call h d
                 | None \<Rightarrow> (Inr received, [Parse]))
            | _ \<Rightarrow> (Inr received, [Parse]))"
  using assms by (cases a) (simp_all add: webhook_try_def route_table_unfold)

lemma webhook_try_other_event:
  assumes "verify_webhook_signature mac (get_data req) (x_hub_signature_256 req) secret = Inr True"
    and "utf8_decode (get_data req) = Some doc"
    and "loads doc = Inr d"
    and "x_github_event req \<noteq> Some (str_lit ''pull_request'')"
    and "x_github_event req \<noteq> Some (str_lit ''ping'')"
  shows "webhook_try mac loads secret req = (Inr received, [Parse])"
  using assms by (simp add: webhook_try_def)

lemma webhook_try_ping:
  assumes "verify_webhook_signature mac (get_data req) (x_hub_signature_256 req) secret = Inr True"
    and "utf8_decode (get_data req) = Some doc"
    and "loads doc = Inr d"
    and "x_github_event req = Some (str_lit ''ping'')"
  shows "webhook_try mac loads secret req =
           (Inr \<lparr>status = 200, body = jsonify ''message'' ''Pong''\<rparr>, [Parse])"
  using assms by (simp add: webhook_try_def lits_distinct)

text \<open>The events of a run: nothing, the parse alone, or the parse and one handler call.\<close>

lemma webhook_try_events:
  "snd (webhook_try mac loads secret req) = []
   \<or> snd (webhook_try mac loads secret req) = [Parse]
   \<or> (\<exists>h d. snd (webhook_try mac loads secret req) = [Parse, Invoke h d])"
proof (cases "verify_webhook_signature mac (get_data req) (x_hub_signature_256 req) secret")
  case (Inl e)
  then show ?thesis by (simp add: webhook_try_def)
next
  case (Inr b)
  show ?thesis
  proof (cases b)
    case False
    with Inr show ?thesis by (simp add: webhook_try_def)
  next
    case True
    with Inr have v:
      "verify_webhook_signature mac (get_data req) (x_hub_signature_256 req) secret = Inr True"
      by simp
    show ?thesis
    proof (cases "utf8_decode (get_data req)")
      case None
      with v show ?thesis by (simp add: webhook_try_def)
    next
      case (Some doc)
      show ?thesis
      proof (cases "loads doc")
        case (Inl e)
        with v Some show ?thesis by (simp add: webhook_try_def)
      next
        case (Inr d)
        note parsed = v Some Inr
        consider (pr) "x_github_event req = Some (str_lit ''pull_request'')"
          | (ping) "x_github_event req = Some (str_lit ''ping'')"
          | (other) "x_github_event req \<noteq> Some (str_lit ''pull_request'')"
              "x_github_event req \<noteq> Some (str_lit ''ping'')"
          by blast
        then show ?thesis
        proof cases
          case pr
          show ?thesis
          proof (cases "py_get d (str_lit ''action'')")
            case (Inl e)
            with parsed pr show ?thesis by (simp add: webhook_try_def)
          next
            case (Inr a)
            show ?thesis
              by (simp add: webhook_try_pull_request
                    [where loads = loads and doc = doc, OF parsed pr Inr]
                  call_events split: json.splits option.splits)
          qed
        next
          case ping
          show ?thesis
            by (simp add: webhook_try_ping [where loads = loads and doc = doc, OF parsed ping])
        next
          case other
          show ?thesis
            by (simp add: webhook_try_other_event
                  [where loads = loads and doc = doc, OF parsed other])
        qed
      qed
    qed
  qed
qed

text \<open>
  When the verifier raises, the answer is 500 and not the 401 of a rejected signature;
  when the body is not UTF-8, the answer is 500 and not the 400 of invalid JSON.
\<close>

lemma webhook_verify_raises:
  assumes "verify_webhook_signature mac (get_data req) (x_hub_signature_256 req) secret = Inl e"
  shows "webhook mac loads secret req =
           (\<lparr>status = 500, body = jsonify ''error'' ''Internal server error''\<rparr>, [])"
  using assms
  by (cases e) (simp_all add: webhook_def webhook_try_def verify_webhook_signature_def
      compare_digest_def split: option.splits if_splits)

lemma webhook_undecodable:
  assumes "verify_webhook_signature mac (get_data req) (x_hub_signature_256 req) secret = Inr True"
    and "utf8_decode (get_data req) = None"
  shows "webhook mac loads secret req =
           (\<lparr>status = 500, body = jsonify ''error'' ''Internal server error''\<rparr>, [Parse])"
  using assms by (simp add: webhook_def webhook_try_def)

text \<open>
  The action can be read exactly when the parsed body is an object. On any other JSON
  value \<open>data.get\<close> raises, and a \<open>pull_request\<close> delivery is answered 500.
\<close>

lemma py_get_object: "(\<exists>a. py_get d k = Inr a) \<longleftrightarrow> (\<exists>kvs. d = JObj kvs)"
  by (cases d) (auto split: option.splits)

lemma webhook_action_unreadable:
  assumes "verify_webhook_signature mac (get_data req) (x_hub_signature_256 req) secret = Inr True"
    and "utf8_decode (get_data req) = Some doc"
    and "loads doc = Inr d"
    and "x_github_event req = Some (str_lit ''pull_request'')"
    and "py_get d (str_lit ''action'') = Inl e"
  shows "webhook mac loads secret req =
           (\<lparr>status = 500, body = jsonify ''error'' ''Internal server error''\<rparr>, [Parse])"
  using assms py_get_not_json [of d "str_lit ''action''"]
  by (simp add: webhook_def webhook_try_def split: exn.splits)

lemma webhook_missing_signature:
  "x_hub_signature_256 req = None \<Longrightarrow>
     webhook mac loads secret req =
       (\<lparr>status = 401, body = jsonify ''error'' ''Invalid signature''\<rparr>, [])"
  by (simp add: webhook_def webhook_try_def verify_webhook_signature_def)

lemma webhook_invalid_json:
  assumes "verify_webhook_signature mac (get_data req) (x_hub_signature_256 req) secret = Inr True"
    and "utf8_decode (get_data req) = Some doc"
    and "loads doc = Inl JSONDecodeError"
  shows "webhook mac loads secret req =
           (\<lparr>status = 400, body = jsonify ''error'' ''Invalid JSON''\<rparr>, [Parse])"
  using assms by (simp add: webhook_def webhook_try_def)

text \<open>The concrete deliveries, evaluated.\<close>

lemmas body_defs =
  body_bare_def body_full_def body_closed_def body_edited_def body_empty_def body_array_def

lemma delivery_fields:
  "get_data (delivery doc ev) = bytes_lit doc"
  "x_github_event (delivery doc ev) = ev"
  by (simp_all add: delivery_def signed_request_def)

lemma verify_delivery_body:
  "verify_webhook_signature test_mac (bytes_lit doc) (x_hub_signature_256 (delivery doc ev))
     default_secret = Inr True"
  using verify_delivery [of doc ev] by (simp add: delivery_fields)

lemma decode_bodies:
  "utf8_decode (bytes_lit body_bare) = Some (str_lit body_bare)"
  "utf8_decode (bytes_lit body_full) = Some (str_lit body_full)"
  "utf8_decode (bytes_lit body_closed) = Some (str_lit body_closed)"
  "utf8_decode (bytes_lit body_edited) = Some (str_lit body_edited)"
  "utf8_decode (bytes_lit body_empty) = Some (str_lit body_empty)"
  "utf8_decode (bytes_lit body_array) = Some (str_lit body_array)"
  "utf8_decode (bytes_lit ''not json'') = Some (str_lit ''not json'')"
  by (simp_all add: bytes_lit_def str_lit_def body_defs)

lemma loads_bodies:
  "test_loads (str_lit body_bare) = Inr payload_bare"
  "test_loads (str_lit body_full) = Inr payload_full"
  "test_loads (str_lit body_closed) = Inr payload_closed"
  "test_loads (str_lit body_edited) = Inr payload_edited"
  "test_loads (str_lit body_empty) = Inr (JObj [])"
  "test_loads (str_lit body_array) = Inr (JArr [])"
  "test_loads (str_lit ''not json'') = Inl JSONDecodeError"
  by (simp_all add: test_loads_def str_lit_def body_defs)

lemma actions_of_payloads:
  "py_get payload_bare (str_lit ''action'') = Inr (JStr (str_lit ''opened''))"
  "py_get payload_full (str_lit ''action'') = Inr (JStr (str_lit ''opened''))"
  "py_get payload_closed (str_lit ''action'') = Inr (JStr (str_lit ''closed''))"
  "py_get payload_edited (str_lit ''action'') = Inr (JStr (str_lit ''edited''))"
  by (simp_all add: payload_bare_def payload_full_def payload_closed_def payload_edited_def)

lemma handler_runs:
  "handle_pull_request_opened payload_bare = Inl KeyError"
  "handle_pull_request_opened payload_full = Inr ()"
  "handle_pull_request_closed payload_closed = Inl KeyError"
  by (simp_all add: payload_bare_def payload_full_def payload_closed_def
      handle_pull_request_opened_def handle_pull_request_closed_def and_then_def str_lit_def)

lemma closed_payload_flag:
  "subscript payload_closed (str_lit ''pull_request'') = Inr (JObj [(str_lit ''merged'', JBool True)])"
  by (simp add: payload_closed_def str_lit_def)

lemma edited_unrouted: "JStr (str_lit ''edited'') \<notin> JStr ` dom route_table"
  by (simp add: route_table_def str_lit_def image_iff dom_def)

section \<open>The endpoint: properties\<close>

text \<open>
  C4. For a request whose signature verifies, whose body parses as JSON and whose event
  type is \<open>pull_request\<close>, with action string \<open>a\<close> in the parsed envelope \<open>d\<close>: the
  handlers invoked are exactly what the route table binds to \<open>a\<close> by exact match, called
  with \<open>d\<close>, and none when the table has no entry for \<open>a\<close>. In particular \<open>merged\<close>
  goes to the merged-handler and \<open>closed\<close> to the closed-handler, whatever else \<open>d\<close>
  holds.
\<close>

theorem dispatch_follows_route_table:
  assumes "verify_webhook_signature mac (get_data req) (x_hub_signature_256 req) secret = Inr True"
    and "utf8_decode (get_data req) = Some doc"
    and "loads doc = Inr d"
    and "x_github_event req = Some (str_lit ''pull_request'')"
    and "py_get d (str_lit ''action'') = Inr (JStr a)"
  shows "invoked (snd (webhook mac loads secret req))
           = (case route_table a of Some h \<Rightarrow> [(h, d)] | None \<Rightarrow> [])
         \<and> (a = str_lit ''merged'' \<longrightarrow>
               invoked (snd (webhook mac loads secret req)) = [(Merged, d)])
         \<and> (a = str_lit ''closed'' \<longrightarrow>
               invoked (snd (webhook mac loads secret req)) = [(Closed, d)])"
proof -
  have tr: "webhook_try mac loads secret req =
      (case route_table a of Some h \<Rightarrow> call h d | None \<Rightarrow> (Inr received, [Parse]))"
    using webhook_try_pull_request [where loads = loads and doc = doc, OF assms] by simp
  have main: "invoked (snd (webhook mac loads secret req))
           = (case route_table a of Some h \<Rightarrow> [(h, d)] | None \<Rightarrow> [])"
    by (simp add: webhook_events tr call_events invoked_simps split: option.splits)
  then show ?thesis by (simp add: route_table_keys)
qed

theorem dispatch_follows_route_table_witness:
  "verify_webhook_signature test_mac
     (get_data (delivery body_closed (Some (str_lit ''pull_request''))))
     (x_hub_signature_256 (delivery body_closed (Some (str_lit ''pull_request''))))
     default_secret = Inr True
   \<and> utf8_decode (get_data (delivery body_closed (Some (str_lit ''pull_request''))))
       = Some (str_lit body_closed)
   \<and> test_loads (str_lit body_closed) = Inr payload_closed
   \<and> x_github_event (delivery body_closed (Some (str_lit ''pull_request'')))
       = Some (str_lit ''pull_request'')
   \<and> py_get payload_closed (str_lit ''action'') = Inr (JStr (str_lit ''closed''))
   \<and> subscript payload_closed (str_lit ''pull_request'')
       = Inr (JObj [(str_lit ''merged'', JBool True)])
   \<and> invoked (snd (webhook test_mac test_loads default_secret
         (delivery body_closed (Some (str_lit ''pull_request''))))) = [(Closed, payload_closed)]"
  using dispatch_follows_route_table
    [where loads = test_loads and doc = "str_lit body_closed" and d = payload_closed
       and req = "delivery body_closed (Some (str_lit ''pull_request''))"
       and a = "str_lit ''closed''" and mac = test_mac and secret = default_secret]
  by (simp add: verify_delivery_body delivery_fields decode_bodies loads_bodies actions_of_payloads
      route_table_keys closed_payload_flag)

text \<open>
  C5. A delivery whose body is the single byte \<open>0xFF\<close>, correctly signed under the
  default secret: the body is not valid JSON, yet the answer is 500 with
  \<open>{"error": "Internal server error"}\<close>, not 400, because decoding the body raises
  \<open>UnicodeDecodeError\<close>, which the \<open>except json.JSONDecodeError\<close> clause does not
  catch. The other parts of the claim hold: \<open>webhook_missing_signature\<close> and
  \<open>webhook_invalid_json\<close>.
\<close>

theorem webhook_undecodable_body:
  "webhook mac loads default_secret (signed_request mac default_secret [0xFF] ev) =
     (\<lparr>status = 500, body = jsonify ''error'' ''Internal server error''\<rparr>, [Parse])"
proof -
  have "verify_webhook_signature mac (get_data (signed_request mac default_secret [0xFF] ev))
          (x_hub_signature_256 (signed_request mac default_secret [0xFF] ev)) default_secret
        = Inr True"
    by (rule verify_signed_request [OF default_secret_nonempty default_secret_key])
  moreover have "utf8_decode (get_data (signed_request mac default_secret [0xFF] ev)) = None"
    by (simp add: signed_request_def)
  ultimately show ?thesis
    by (simp add: webhook_def webhook_try_def)
qed

text \<open>
  C6 (amended). For a request whose signature verifies, whose body parses as JSON and
  which is routed to handler \<open>h\<close>: the handler is called once with the envelope, and the
  response is 200 with the success message when the handler completes normally, and 500
  with \<open>{"error": "Internal server error"}\<close> when it raises.
\<close>

theorem handler_outcome_decides_response:
  assumes "verify_webhook_signature mac (get_data req) (x_hub_signature_256 req) secret = Inr True"
    and "utf8_decode (get_data req) = Some doc"
    and "loads doc = Inr d"
    and "x_github_event req = Some (str_lit ''pull_request'')"
    and "py_get d (str_lit ''action'') = Inr (JStr a)"
    and "route_table a = Some h"
  shows "webhook mac loads secret req =
           (case run_handler h d of
              Inr _ \<Rightarrow> received
            | Inl _ \<Rightarrow> \<lparr>status = 500, body = jsonify ''error'' ''Internal server error''\<rparr>,
            [Parse, Invoke h d])"
proof (rule webhook_of_call)
  show "webhook_try mac loads secret req = call h d"
    using webhook_try_pull_request [where loads = loads and doc = doc, OF assms(1-5)] assms(6)
    by simp
qed

theorem handler_outcome_decides_response_witness:
  "verify_webhook_signature test_mac
     (get_data (delivery body_full (Some (str_lit ''pull_request''))))
     (x_hub_signature_256 (delivery body_full (Some (str_lit ''pull_request''))))
     default_secret = Inr True
   \<and> utf8_decode (get_data (delivery body_full (Some (str_lit ''pull_request''))))
       = Some (str_lit body_full)
   \<and> test_loads (str_lit body_full) = Inr payload_full
   \<and> x_github_event (delivery body_full (Some (str_lit ''pull_request'')))
       = Some (str_lit ''pull_request'')
   \<and> py_get payload_full (str_lit ''action'') = Inr (JStr (str_lit ''opened''))
   \<and> route_table (str_lit ''opened'') = Some Opened
   \<and> run_handler Opened payload_full = Inr ()
   \<and> webhook test_mac test_loads default_secret
         (delivery body_full (Some (str_lit ''pull_request'')))
       = (received, [Parse, Invoke Opened payload_full])"
  using handler_outcome_decides_response
    [where loads = test_loads and doc = "str_lit body_full" and d = payload_full
       and req = "delivery body_full (Some (str_lit ''pull_request''))"
       and a = "str_lit ''opened''" and h = Opened and mac = test_mac and secret = default_secret]
  by (simp add: verify_delivery_body delivery_fields decode_bodies loads_bodies actions_of_payloads
      route_table_keys handler_runs)

text \<open>
  C6 as stated fails: of two correctly signed \<open>opened\<close> deliveries, the one whose
  payload lacks \<open>pull_request\<close> makes the handler raise \<open>KeyError\<close> and is answered 500,
  the other is answered 200.
\<close>

theorem raising_handler_counterexample:
  "verify_webhook_signature test_mac
     (get_data (delivery body_bare (Some (str_lit ''pull_request''))))
     (x_hub_signature_256 (delivery body_bare (Some (str_lit ''pull_request''))))
     default_secret = Inr True
   \<and> utf8_decode (get_data (delivery body_bare (Some (str_lit ''pull_request''))))
       = Some (str_lit body_bare)
   \<and> test_loads (str_lit body_bare) = Inr payload_bare
   \<and> run_handler Opened payload_bare = Inl KeyError
   \<and> webhook test_mac test_loads default_secret
         (delivery body_bare (Some (str_lit ''pull_request'')))
       = (\<lparr>status = 500, body = jsonify ''error'' ''Internal server error''\<rparr>,
          [Parse, Invoke Opened payload_bare])
   \<and> run_handler Opened payload_full = Inr ()
   \<and> webhook test_mac test_loads default_secret
         (delivery body_full (Some (str_lit ''pull_request'')))
       = (received, [Parse, Invoke Opened payload_full])"
proof -
  have bare: "webhook_try test_mac test_loads default_secret
      (delivery body_bare (Some (str_lit ''pull_request''))) = call Opened payload_bare"
    using webhook_try_pull_request
      [where loads = test_loads and doc = "str_lit body_bare" and d = payload_bare
         and req = "delivery body_bare (Some (str_lit ''pull_request''))"
         and a = "JStr (str_lit ''opened'')" and mac = test_mac and secret = default_secret]
    by (simp add: verify_delivery_body delivery_fields decode_bodies loads_bodies actions_of_payloads
        route_table_keys)
  have full: "webhook_try test_mac test_loads default_secret
      (delivery body_full (Some (str_lit ''pull_request''))) = call Opened payload_full"
    using webhook_try_pull_request
      [where loads = test_loads and doc = "str_lit body_full" and d = payload_full
         and req = "delivery body_full (Some (str_lit ''pull_request''))"
         and a = "JStr (str_lit ''opened'')" and mac = test_mac and secret = default_secret]
    by (simp add: verify_delivery_body delivery_fields decode_bodies loads_bodies actions_of_payloads
        route_table_keys)
  show ?thesis
    using webhook_of_call [OF bare] webhook_of_call [OF full]
    by (simp add: verify_delivery_body delivery_fields decode_bodies loads_bodies handler_runs)
qed

text \<open>
  C7 (amended). For a request whose signature verifies, whose body parses as JSON and
  whose event type is \<open>ping\<close>, the response is 200 with \<open>{"message": "Pong"}\<close>, whatever
  the parsed content, and no handler is invoked.
\<close>

theorem ping_answers_pong:
  assumes "verify_webhook_signature mac (get_data req) (x_hub_signature_256 req) secret = Inr True"
    and "utf8_decode (get_data req) = Some doc"
    and "loads doc = Inr d"
    and "x_github_event req = Some (str_lit ''ping'')"
  shows "webhook mac loads secret req =
           (\<lparr>status = 200, body = jsonify ''message'' ''Pong''\<rparr>, [Parse])"
  using assms by (simp add: webhook_def webhook_try_def lits_distinct)

theorem ping_answers_pong_witness:
  "verify_webhook_signature test_mac (get_data (delivery body_empty (Some (str_lit ''ping''))))
     (x_hub_signature_256 (delivery body_empty (Some (str_lit ''ping'')))) default_secret
     = Inr True
   \<and> utf8_decode (get_data (delivery body_empty (Some (str_lit ''ping''))))
       = Some (str_lit body_empty)
   \<and> test_loads (str_lit body_empty) = Inr (JObj [])
   \<and> x_github_event (delivery body_empty (Some (str_lit ''ping''))) = Some (str_lit ''ping'')
   \<and> webhook test_mac test_loads default_secret (delivery body_empty (Some (str_lit ''ping'')))
       = (\<lparr>status = 200, body = jsonify ''message'' ''Pong''\<rparr>, [Parse])"
  using ping_answers_pong
    [where loads = test_loads and doc = "str_lit body_empty" and d = "JObj []"
       and req = "delivery body_empty (Some (str_lit ''ping''))"
       and mac = test_mac and secret = default_secret]
  by (simp add: verify_delivery_body delivery_fields decode_bodies loads_bodies)

text \<open>
  C7 as stated fails when the body is not JSON: the body is parsed before the event type
  is read, so a correctly signed \<open>ping\<close> with body \<open>not json\<close> is answered 400.
\<close>

theorem ping_with_invalid_json_counterexample:
  "verify_webhook_signature test_mac (get_data (delivery ''not json'' (Some (str_lit ''ping''))))
     (x_hub_signature_256 (delivery ''not json'' (Some (str_lit ''ping'')))) default_secret
     = Inr True
   \<and> x_github_event (delivery ''not json'' (Some (str_lit ''ping''))) = Some (str_lit ''ping'')
   \<and> webhook test_mac test_loads default_secret (delivery ''not json'' (Some (str_lit ''ping'')))
       = (\<lparr>status = 400, body = jsonify ''error'' ''Invalid JSON''\<rparr>, [Parse])"
  using webhook_invalid_json
    [where loads = test_loads and doc = "str_lit ''not json''"
       and req = "delivery ''not json'' (Some (str_lit ''ping''))"
       and mac = test_mac and secret = default_secret]
  by (simp add: verify_delivery_body delivery_fields decode_bodies loads_bodies)

text \<open>
  C8 (amended). For a request whose signature verifies and whose body parses as JSON:
  when the event type is \<open>pull_request\<close>, the parsed body is an object (so that the
  action can be read) and the action read from it (absent, not a string, or a string) is
  not a key of the route table, or when the event type is neither \<open>pull_request\<close> nor
  \<open>ping\<close>, the response is 200 with the success message and no handler is invoked.
\<close>

theorem unrouted_is_received:
  assumes "verify_webhook_signature mac (get_data req) (x_hub_signature_256 req) secret = Inr True"
    and "utf8_decode (get_data req) = Some doc"
    and "loads doc = Inr d"
    and "(x_github_event req = Some (str_lit ''pull_request'')
            \<and> py_get d (str_lit ''action'') = Inr a \<and> a \<notin> JStr ` dom route_table)
         \<or> (x_github_event req \<noteq> Some (str_lit ''pull_request'')
            \<and> x_github_event req \<noteq> Some (str_lit ''ping''))"
  shows "webhook mac loads secret req = (received, [Parse])"
proof (rule webhook_of_response)
  from assms(4) show "webhook_try mac loads secret req = (Inr received, [Parse])"
  proof (elim disjE conjE)
    assume ev: "x_github_event req = Some (str_lit ''pull_request'')"
      and act: "py_get d (str_lit ''action'') = Inr a"
      and out: "a \<notin> JStr ` dom route_table"
    have "route_table s = None" if "a = JStr s" for s
      using out that by (auto simp: dom_def)
    then show ?thesis
      by (simp add: webhook_try_pull_request [where loads = loads and doc = doc, OF assms(1-3) ev act] split: json.splits)
  next
    assume "x_github_event req \<noteq> Some (str_lit ''pull_request'')"
      and "x_github_event req \<noteq> Some (str_lit ''ping'')"
    then show ?thesis by (rule webhook_try_other_event [where loads = loads and doc = doc, OF assms(1-3)])
  qed
qed

theorem unrouted_is_received_witness:
  "verify_webhook_signature test_mac
     (get_data (delivery body_edited (Some (str_lit ''pull_request''))))
     (x_hub_signature_256 (delivery body_edited (Some (str_lit ''pull_request''))))
     default_secret = Inr True
   \<and> utf8_decode (get_data (delivery body_edited (Some (str_lit ''pull_request''))))
       = Some (str_lit body_edited)
   \<and> test_loads (str_lit body_edited) = Inr payload_edited
   \<and> x_github_event (delivery body_edited (Some (str_lit ''pull_request'')))
       = Some (str_lit ''pull_request'')
   \<and> py_get payload_edited (str_lit ''action'') = Inr (JStr (str_lit ''edited''))
   \<and> JStr (str_lit ''edited'') \<notin> JStr ` dom route_table
   \<and> webhook test_mac test_loads default_secret
         (delivery body_edited (Some (str_lit ''pull_request''))) = (received, [Parse])"
  using unrouted_is_received
    [where loads = test_loads and doc = "str_lit body_edited" and d = payload_edited
       and req = "delivery body_edited (Some (str_lit ''pull_request''))"
       and a = "JStr (str_lit ''edited'')" and mac = test_mac and secret = default_secret]
    edited_unrouted
  by (simp add: verify_delivery_body delivery_fields decode_bodies loads_bodies actions_of_payloads)

text \<open>
  C8 as stated fails for a body that is valid JSON but not an object: a correctly signed
  \<open>pull_request\<close> delivery with body \<open>[]\<close> has no action in the route table, yet
  \<open>data.get\<close> raises \<open>AttributeError\<close> and the answer is 500.
\<close>

theorem non_object_body_counterexample:
  "verify_webhook_signature test_mac
     (get_data (delivery body_array (Some (str_lit ''pull_request''))))
     (x_hub_signature_256 (delivery body_array (Some (str_lit ''pull_request''))))
     default_secret = Inr True
   \<and> utf8_decode (get_data (delivery body_array (Some (str_lit ''pull_request''))))
       = Some (str_lit body_array)
   \<and> test_loads (str_lit body_array) = Inr (JArr [])
   \<and> x_github_event (delivery body_array (Some (str_lit ''pull_request'')))
       = Some (str_lit ''pull_request'')
   \<and> py_get (JArr []) (str_lit ''action'') = Inl AttributeError
   \<and> webhook test_mac test_loads default_secret
         (delivery body_array (Some (str_lit ''pull_request'')))
       = (\<lparr>status = 500, body = jsonify ''error'' ''Internal server error''\<rparr>, [Parse])"
  using webhook_action_unreadable
    [where loads = test_loads and doc = "str_lit body_array" and d = "JArr []"
       and req = "delivery body_array (Some (str_lit ''pull_request''))"
       and e = AttributeError and mac = test_mac and secret = default_secret]
  by (simp add: verify_delivery_body delivery_fields decode_bodies loads_bodies)

text \<open>
  C9. Every request invokes at most one handler; and a request whose signature verifies,
  whose body parses as JSON to \<open>d\<close>, with event type \<open>pull_request\<close> and action
  \<open>opened\<close>, invokes the opened-handler exactly once, with \<open>d\<close> itself.
\<close>

theorem at_most_one_handler:
  "length (invoked (snd (webhook mac loads secret req))) \<le> 1
   \<and> (verify_webhook_signature mac (get_data req) (x_hub_signature_256 req) secret = Inr True
        \<and> utf8_decode (get_data req) = Some doc
        \<and> loads doc = Inr d
        \<and> x_github_event req = Some (str_lit ''pull_request'')
        \<and> py_get d (str_lit ''action'') = Inr (JStr (str_lit ''opened''))
      \<longrightarrow> invoked (snd (webhook mac loads secret req)) = [(Opened, d)])"
proof (intro conjI impI)
  show "length (invoked (snd (webhook mac loads secret req))) \<le> 1"
    using webhook_try_events [of mac loads secret req]
    by (auto simp: webhook_events invoked_simps)
next
  assume h: "verify_webhook_signature mac (get_data req) (x_hub_signature_256 req) secret = Inr True
        \<and> utf8_decode (get_data req) = Some doc
        \<and> loads doc = Inr d
        \<and> x_github_event req = Some (str_lit ''pull_request'')
        \<and> py_get d (str_lit ''action'') = Inr (JStr (str_lit ''opened''))"
  then have "webhook_try mac loads secret req = call Opened d"
    using webhook_try_pull_request [where loads = loads and doc = doc and req = req
        and a = "JStr (str_lit ''opened'')"]
    by (simp add: route_table_keys)
  then show "invoked (snd (webhook mac loads secret req)) = [(Opened, d)]"
    by (simp add: webhook_events call_events invoked_simps)
qed

theorem at_most_one_handler_witness:
  "verify_webhook_signature test_mac
     (get_data (delivery body_full (Some (str_lit ''pull_request''))))
     (x_hub_signature_256 (delivery body_full (Some (str_lit ''pull_request''))))
     default_secret = Inr True
   \<and> utf8_decode (get_data (delivery body_full (Some (str_lit ''pull_request''))))
       = Some (str_lit body_full)
   \<and> test_loads (str_lit body_full) = Inr payload_full
   \<and> x_github_event (delivery body_full (Some (str_lit ''pull_request'')))
       = Some (str_lit ''pull_request'')
   \<and> py_get payload_full (str_lit ''action'') = Inr (JStr (str_lit ''opened''))
   \<and> invoked (snd (webhook test_mac test_loads default_secret
         (delivery body_full (Some (str_lit ''pull_request''))))) = [(Opened, payload_full)]"
  using at_most_one_handler
    [where loads = test_loads and doc = "str_lit body_full" and d = payload_full
       and req = "delivery body_full (Some (str_lit ''pull_request''))"
       and mac = test_mac and secret = default_secret]
  by (simp add: verify_delivery_body delivery_fields decode_bodies loads_bodies actions_of_payloads)

text \<open>
  C10. For a request whose signature verifies and whose body parses as JSON but which
  has no \<open>X-GitHub-Event\<close> header, the response is 200 with the success message and no
  handler is invoked.
\<close>

theorem absent_event_header_is_unhandled:
  assumes "verify_webhook_signature mac (get_data req) (x_hub_signature_256 req) secret = Inr True"
    and "utf8_decode (get_data req) = Some doc"
    and "loads doc = Inr d"
    and "x_github_event req = None"
  shows "webhook mac loads secret req = (received, [Parse])"
  using assms by (simp add: webhook_def webhook_try_def)

theorem absent_event_header_is_unhandled_witness:
  "verify_webhook_signature test_mac (get_data (delivery body_empty None))
     (x_hub_signature_256 (delivery body_empty None)) default_secret = Inr True
   \<and> utf8_decode (get_data (delivery body_empty None)) = Some (str_lit body_empty)
   \<and> test_loads (str_lit body_empty) = Inr (JObj [])
   \<and> x_github_event (delivery body_empty None) = None
   \<and> webhook test_mac test_loads default_secret (delivery body_empty None) = (received, [Parse])"
  using absent_event_header_is_unhandled
    [where loads = test_loads and doc = "str_lit body_empty" and d = "JObj []" and req = "delivery body_empty None"
       and mac = test_mac and secret = default_secret]
  by (simp add: verify_delivery_body delivery_fields decode_bodies loads_bodies)
end
